theory Spec2Isabelle
  imports Main "HOL-Library.Word"
begin

section \<open>The Pong application task file (app.c) as a shallow embedding\<close>

text \<open>
  The file \<^verbatim>\<open>app.c\<close> drives a VT100 terminal over UART1 from a uC/OS-III task.
  Everything the code does beyond computing values is an effect on the outside world:
  a byte handed to \<^verbatim>\<open>putU1\<close>, a call of \<^verbatim>\<open>OSSchedLock\<close> or
  \<^verbatim>\<open>OSSchedUnlock\<close>, a delay. The model makes these effects a trace of events,
  returned by every function in program order.

  The C type \<^verbatim>\<open>int\<close> of the PIC32 toolchain is a 32-bit two's complement integer:
  it is modelled by \<open>32 word\<close>, read with \<open>sint\<close> where the source compares signed
  values, and by the unsigned operations of the word type where the source mixes it
  with an unsigned constant (\<^verbatim>\<open>i / 10u\<close>).
\<close>

subsection \<open>Data\<close>

type_synonym c_int = "32 word"

text \<open>
  The events of a run. \<open>Put b\<close> is one byte handed to the transport; \<open>Delay ms\<close> is the
  call \<^verbatim>\<open>OSTimeDlyHMSM(0, 0, 0, ms, ...)\<close>.
\<close>

datatype event = Put char | SchedLock | SchedUnlock | Delay nat

text \<open>
  What a function declared \<^verbatim>\<open>int f(...)\<close> hands back: the value of the
  \<^verbatim>\<open>return\<close> statement it executed, or nothing when control reached the closing brace
  without one.
\<close>

datatype ret = Return c_int | NoReturn

text \<open>
  The levels of the four buttons \<^verbatim>\<open>BTN1\<close> .. \<^verbatim>\<open>BTN4\<close>. These macros are declared in
  \<^verbatim>\<open>bsp.h\<close>; the code only tests their value against zero, so the value each macro
  has when it is read is a field of the sample.
\<close>

record switches =
  BTN1 :: c_int
  BTN2 :: c_int
  BTN3 :: c_int
  BTN4 :: c_int

text \<open>
  The variables of the ball task: its locals \<^verbatim>\<open>x\<close>, \<^verbatim>\<open>y\<close> and the globals
  \<^verbatim>\<open>x_delta\<close>, \<^verbatim>\<open>y_delta\<close>.
\<close>

record ball =
  x :: c_int
  y :: c_int
  x_delta :: c_int
  y_delta :: c_int

subsection \<open>Constants of the source\<close>

definition RIGHT_UP_SW :: "switches \<Rightarrow> c_int" where
  "RIGHT_UP_SW sw = BTN1 sw"

definition RIGHT_DOWN_SW :: "switches \<Rightarrow> c_int" where
  "RIGHT_DOWN_SW sw = BTN2 sw"

definition LEFT_UP_SW :: "switches \<Rightarrow> c_int" where
  "LEFT_UP_SW sw = BTN3 sw"

definition LEFT_DOWN_SW :: "switches \<Rightarrow> c_int" where
  "LEFT_DOWN_SW sw = BTN4 sw"

definition SCREEN_X_START :: c_int where
  "SCREEN_X_START = 1"

definition SCREEN_X_END :: c_int where
  "SCREEN_X_END = 80"

definition SCREEN_Y_START :: c_int where
  "SCREEN_Y_START = 1"

definition SCREEN_Y_END :: c_int where
  "SCREEN_Y_END = 25"

text \<open>Both operands of the division are non-negative constants, where the division of C and \<open>div\<close> of the word type agree.\<close>

definition BALL_X_START :: c_int where
  "BALL_X_START = (SCREEN_X_END - SCREEN_X_START) div 2"

definition BALL_Y_START :: c_int where
  "BALL_Y_START = (SCREEN_Y_END - SCREEN_Y_START) div 2"

subsection \<open>The transport\<close>

text \<open>
  Modelled from the spec: \<^verbatim>\<open>putU1\<close> is declared in \<^verbatim>\<open>uart1.h\<close>, which is not part of
  the sources at hand. The spec describes it as the operation that transmits one byte:
  of the value passed, the low eight bits go out.
\<close>

definition putU1 :: "c_int \<Rightarrow> event list" where
  "putU1 v = [Put (char_of (unat v))]"

text \<open>
  A character of the source as the \<^verbatim>\<open>int\<close> it is used as. Of a value handed to
  \<^verbatim>\<open>putU1\<close> only the low eight bits matter, so the sign of \<^verbatim>\<open>char\<close> plays no role.
\<close>

definition chr :: "char \<Rightarrow> c_int" where
  "chr c = of_char c"

text \<open>The bytes of a trace, in the order they were sent.\<close>

fun bytes :: "event list \<Rightarrow> string" where
  "bytes [] = []"
| "bytes (Put b # es) = b # bytes es"
| "bytes (e # es) = bytes es"

subsection \<open>Number output\<close>

text \<open>
  \<^verbatim>\<open>void UART_PrintNum(int i) { putU1(i / 10u + '0'); putU1(i % 10u + '0'); }\<close>

  The constant \<^verbatim>\<open>10u\<close> is unsigned, so \<^verbatim>\<open>i\<close> is converted to unsigned and both the
  division and the remainder are the unsigned ones: \<open>div\<close> and \<open>mod\<close> of the word type.
\<close>

definition UART_PrintNum :: "c_int \<Rightarrow> event list" where
  "UART_PrintNum i = putU1 (i div 10 + chr CHR ''0'') @ putU1 (i mod 10 + chr CHR ''0'')"

subsection \<open>Screen functions\<close>

definition Screen_MoveCursor :: "c_int \<Rightarrow> c_int \<Rightarrow> event list" where
  "Screen_MoveCursor Xpos Ypos =
     putU1 0x1B @ putU1 (chr CHR ''['') @ UART_PrintNum Ypos @ putU1 (chr CHR '';'') @
     UART_PrintNum Xpos @ putU1 (chr CHR ''H'')"

text \<open>
  The test that opens \<^verbatim>\<open>Screen_WriteChar\<close> and \<^verbatim>\<open>Screen_WriteNumber\<close>:
  \<^verbatim>\<open>(x > SCREEN_X_END) || (x < SCREEN_X_START) || (y > SCREEN_Y_END) || (y < SCREEN_Y_START)\<close>,
  a comparison of signed values.
\<close>

definition off_screen :: "c_int \<Rightarrow> c_int \<Rightarrow> bool" where
  "off_screen xx yy \<longleftrightarrow>
     SCREEN_X_END <s xx \<or> xx <s SCREEN_X_START \<or> SCREEN_Y_END <s yy \<or> yy <s SCREEN_Y_START"

text \<open>
  \<^verbatim>\<open>Screen_WriteChar\<close> returns 1 before touching the scheduler or the transport when
  the position is off the screen. Otherwise it locks the scheduler, moves the cursor,
  sends the character and unlocks; the function body ends there, with no
  \<^verbatim>\<open>return\<close> statement.
\<close>

definition Screen_WriteChar :: "c_int \<Rightarrow> c_int \<Rightarrow> char \<Rightarrow> ret \<times> event list" where
  "Screen_WriteChar xx yy c =
     (if off_screen xx yy then (Return 1, [])
      else (NoReturn, [SchedLock] @ Screen_MoveCursor xx yy @ putU1 (chr c) @ [SchedUnlock]))"

definition Screen_WriteNumber :: "c_int \<Rightarrow> c_int \<Rightarrow> c_int \<Rightarrow> ret \<times> event list" where
  "Screen_WriteNumber xx yy number =
     (if off_screen xx yy then (Return 1, [])
      else (NoReturn, [SchedLock] @ Screen_MoveCursor xx yy @ UART_PrintNum number @ [SchedUnlock]))"

subsection \<open>The ball task\<close>

text \<open>
  The four helpers test one switch each: \<^verbatim>\<open>if (RIGHT_UP_SW) return 1; else return 0;\<close>
  and likewise for the other three.
\<close>

definition Ball_Up :: "switches \<Rightarrow> c_int" where
  "Ball_Up sw = (if RIGHT_UP_SW sw \<noteq> 0 then 1 else 0)"

definition Ball_Down :: "switches \<Rightarrow> c_int" where
  "Ball_Down sw = (if RIGHT_DOWN_SW sw \<noteq> 0 then 1 else 0)"

definition Ball_Left :: "switches \<Rightarrow> c_int" where
  "Ball_Left sw = (if LEFT_UP_SW sw \<noteq> 0 then 1 else 0)"

definition Ball_Right :: "switches \<Rightarrow> c_int" where
  "Ball_Right sw = (if LEFT_DOWN_SW sw \<noteq> 0 then 1 else 0)"

text \<open>
  What \<^verbatim>\<open>App_TaskBall\<close> does before its loop: it sets the velocity to \<open>(1, 0)\<close>, the
  position to the start position, and draws the ball there.
\<close>

definition App_TaskBall_init :: "ball \<times> event list" where
  "App_TaskBall_init =
     (let b = \<lparr>x = BALL_X_START, y = BALL_Y_START, x_delta = 1, y_delta = 0\<rparr>
      in (b, snd (Screen_WriteChar (x b) (y b) CHR ''*'')))"

text \<open>
  The \<^verbatim>\<open>if\<close> / \<^verbatim>\<open>else if\<close> chain of the loop body, in the order of the source. Each
  helper is called only when the ones before it returned 0.
\<close>

definition steer :: "switches \<Rightarrow> ball \<Rightarrow> ball" where
  "steer sw b =
     (if Ball_Up sw \<noteq> 0 then b\<lparr>x_delta := 0, y_delta := 1\<rparr>
      else if Ball_Down sw \<noteq> 0 then b\<lparr>x_delta := 0, y_delta := - 1\<rparr>
      else if Ball_Right sw \<noteq> 0 then b\<lparr>x_delta := - 1, y_delta := 0\<rparr>
      else if Ball_Left sw \<noteq> 0 then b\<lparr>x_delta := 1, y_delta := 0\<rparr>
      else b)"

text \<open>
  One pass through the body of \<^verbatim>\<open>while (DEF_TRUE)\<close>: the delay, the erase at the old
  position, the switch tests, \<^verbatim>\<open>x += x_delta; y += y_delta;\<close> and the draw at the new
  position. The value returned by \<^verbatim>\<open>Screen_WriteChar\<close> is dropped, as in the source.
  The additions are those of the 32-bit machine.
\<close>

definition App_TaskBall_body :: "switches \<Rightarrow> ball \<Rightarrow> ball \<times> event list" where
  "App_TaskBall_body sw b =
     (let erase = snd (Screen_WriteChar (x b) (y b) CHR '' '');
          b1 = steer sw b;
          b2 = b1\<lparr>x := x b1 + x_delta b1, y := y b1 + y_delta b1\<rparr>;
          draw = snd (Screen_WriteChar (x b2) (y b2) CHR ''*'')
      in (b2, [Delay 75] @ erase @ draw))"

text \<open>
  The loop never ends. Its first passes are driven by the list of switch samples, one
  sample for each pass: the result is the state after the last of them and the trace
  of all of them.
\<close>

fun App_TaskBall_loop :: "switches list \<Rightarrow> ball \<Rightarrow> ball \<times> event list" where
  "App_TaskBall_loop [] b = (b, [])"
| "App_TaskBall_loop (sw # sws) b =
     (let (b1, tr1) = App_TaskBall_body sw b;
          (b2, tr2) = App_TaskBall_loop sws b1
      in (b2, tr1 @ tr2))"

definition App_TaskBall :: "switches list \<Rightarrow> ball \<times> event list" where
  "App_TaskBall sws =
     (let (b0, tr0) = App_TaskBall_init;
          (b1, tr1) = App_TaskBall_loop sws b0
      in (b1, tr0 @ tr1))"

text \<open>A sample with no button pressed.\<close>

definition released :: switches where
  "released = \<lparr>BTN1 = 0, BTN2 = 0, BTN3 = 0, BTN4 = 0\<rparr>"

section \<open>Notions of the specification\<close>

text \<open>
  The decimal digit of a number below ten, and the field of two decimal digits, padded
  with a zero, that the terminal protocol uses for a row or a column.
\<close>

definition digit_char :: "nat \<Rightarrow> char" where
  "digit_char d = ''0123456789'' ! d"

definition two_digits :: "nat \<Rightarrow> string" where
  "two_digits n = [digit_char (n div 10), digit_char (n mod 10)]"

text \<open>The printable region: columns 1 to 80, rows 1 to 25.\<close>

definition on_screen :: "int \<Rightarrow> int \<Rightarrow> bool" where
  "on_screen col row \<longleftrightarrow> 1 \<le> col \<and> col \<le> 80 \<and> 1 \<le> row \<and> row \<le> 25"

subsection \<open>The ball as a machine with four states\<close>

text \<open>
  The specification describes the ball task as a machine with four directions, each
  with its velocity \<open>(dx, dy)\<close>.
\<close>

datatype direction = MovingUp | MovingDown | MovingLeft | MovingRight

fun velocity :: "direction \<Rightarrow> int \<times> int" where
  "velocity MovingUp = (0, 1)"
| "velocity MovingDown = (0, - 1)"
| "velocity MovingLeft = (- 1, 0)"
| "velocity MovingRight = (1, 0)"

text \<open>
  What the specification lets a tick see of the outside: whether the up input, the down
  input, the input that turns the ball towards smaller columns and the input that turns
  it towards larger columns are asserted.
\<close>

record inputs =
  in_up :: bool
  in_down :: bool
  in_left :: bool
  in_right :: bool

text \<open>The transition table: the inputs are tried in this order, and the first one asserted wins.\<close>

definition transition :: "inputs \<Rightarrow> direction \<Rightarrow> direction" where
  "transition i d =
     (if in_up i then MovingUp
      else if in_down i then MovingDown
      else if in_left i then MovingLeft
      else if in_right i then MovingRight
      else d)"

text \<open>
  The replay of the table over one sample of the inputs for each tick, on unbounded
  integers: each tick resolves the direction and then moves the position by the
  velocity of the new direction.
\<close>

fun replay :: "inputs list \<Rightarrow> direction \<times> int \<times> int \<Rightarrow> direction \<times> int \<times> int" where
  "replay [] s = s"
| "replay (i # is) (d, c, r) =
     (let d' = transition i d
      in replay is (d', c + fst (velocity d'), r + snd (velocity d')))"

text \<open>
  How the switches of the source give the inputs of the table: the up and down inputs
  are the switches read by \<^verbatim>\<open>Ball_Up\<close> and \<^verbatim>\<open>Ball_Down\<close>; the input that gives
  \<open>dx = -1\<close> is the switch read by \<^verbatim>\<open>Ball_Right\<close>, and the input that gives \<open>dx = +1\<close>
  is the switch read by \<^verbatim>\<open>Ball_Left\<close>.
\<close>

definition asserted :: "switches \<Rightarrow> inputs" where
  "asserted sw =
     \<lparr>in_up = RIGHT_UP_SW sw \<noteq> 0, in_down = RIGHT_DOWN_SW sw \<noteq> 0,
      in_left = LEFT_DOWN_SW sw \<noteq> 0, in_right = LEFT_UP_SW sw \<noteq> 0\<rparr>"

text \<open>The variables of the task that stand for a state of the machine.\<close>

definition ball_of :: "direction \<times> int \<times> int \<Rightarrow> ball" where
  "ball_of s =
     (case s of (d, c, r) \<Rightarrow>
        \<lparr>x = word_of_int c, y = word_of_int r,
         x_delta = word_of_int (fst (velocity d)), y_delta = word_of_int (snd (velocity d))\<rparr>)"

text \<open>A velocity along one axis: one of the four pairs \<open>(1, 0)\<close>, \<open>(-1, 0)\<close>, \<open>(0, 1)\<close>, \<open>(0, -1)\<close>.\<close>

definition axis_aligned :: "ball \<Rightarrow> bool" where
  "axis_aligned b \<longleftrightarrow>
     (x_delta b = 1 \<and> y_delta b = 0) \<or> (x_delta b = - 1 \<and> y_delta b = 0) \<or>
     (x_delta b = 0 \<and> y_delta b = 1) \<or> (x_delta b = 0 \<and> y_delta b = - 1)"

subsection \<open>Lock holds of a trace\<close>

text \<open>
  A trace cut at the scheduler lock: \<open>lock_holds\<close> lists, for each \<open>SchedLock\<close>, the events
  up to the \<open>SchedUnlock\<close> that follows it. The first argument of \<open>holds\<close> is the hold in
  progress, if any.
\<close>

fun holds :: "event list option \<Rightarrow> event list \<Rightarrow> event list list" where
  "holds None [] = []"
| "holds (Some h) [] = [h]"
| "holds None (SchedLock # es) = holds (Some []) es"
| "holds None (e # es) = holds None es"
| "holds (Some h) (SchedUnlock # es) = h # holds None es"
| "holds (Some h) (e # es) = holds (Some (h @ [e])) es"

definition lock_holds :: "event list \<Rightarrow> event list list" where
  "lock_holds tr = holds None tr"

text \<open>The bytes of a trace that are sent while the scheduler is not locked.\<close>

fun unlocked_bytes :: "bool \<Rightarrow> event list \<Rightarrow> string" where
  "unlocked_bytes held [] = []"
| "unlocked_bytes held (SchedLock # es) = unlocked_bytes True es"
| "unlocked_bytes held (SchedUnlock # es) = unlocked_bytes False es"
| "unlocked_bytes held (Put b # es) = (if held then unlocked_bytes held es else b # unlocked_bytes held es)"
| "unlocked_bytes held (Delay n # es) = unlocked_bytes held es"

text \<open>
  A trace whose bytes are all sent within one and the same hold of the lock.
\<close>

definition one_acquisition :: "event list \<Rightarrow> bool" where
  "one_acquisition tr \<longleftrightarrow> (case lock_holds tr of [h] \<Rightarrow> bytes h = bytes tr | _ \<Rightarrow> False)"

section \<open>Auxiliary facts\<close>

subsection \<open>Bytes and digits\<close>

lemma chr_byte: "char_of (unat (chr c)) = c"
proof -
  have "(of_char c :: c_int) = of_nat (of_char c)"
    by (simp add: of_nat_of_char)
  then have "unat (chr c) = take_bit 32 (of_char c :: nat)"
    by (simp add: chr_def unat_of_nat take_bit_eq_mod)
  then show ?thesis
    by (simp add: char_of_take_bit_eq)
qed

lemma putU1_chr: "putU1 (chr c) = [Put c]"
  by (simp add: putU1_def chr_byte)

lemma digit_char_code: "d < 10 \<Longrightarrow> char_of (d + 48) = digit_char d"
proof -
  assume "d < 10"
  then have "d \<in> {0, 1, 2, 3, 4, 5, 6, 7, 8, 9}"
    by auto
  then show ?thesis
    unfolding digit_char_def by (auto simp: char_of_eq_iff)
qed

lemma putU1_digit:
  fixes i :: c_int
  assumes "unat i < 10"
  shows "putU1 (i + chr CHR ''0'') = [Put (digit_char (unat i))]"
proof -
  have "unat (i + 48) = unat i + 48"
    using assms by (simp add: unat_word_ariths)
  then show ?thesis
    using assms by (simp add: putU1_def chr_def digit_char_code)
qed

lemma unat_div_mod_10:
  fixes i :: c_int
  shows "unat (i div 10) = unat i div 10" and "unat (i mod 10) = unat i mod 10"
  by (simp_all add: unat_div unat_mod)

lemma UART_PrintNum_two_digits:
  assumes "unat i < 100"
  shows "UART_PrintNum i = map Put (two_digits (unat i))"
proof -
  have "unat i div 10 < 10" "unat i mod 10 < 10"
    using assms by auto
  then show ?thesis
    by (simp add: UART_PrintNum_def two_digits_def putU1_digit unat_div_mod_10)
qed

lemma unat_sint:
  fixes w :: c_int
  assumes "0 \<le> sint w"
  shows "unat w = nat (sint w)"
proof -
  have "sint w < 2 ^ 32"
    using sint_lt [of w] by simp
  with assms have "take_bit 32 (sint w) = sint w"
    by (simp add: take_bit_int_eq_self)
  then have "uint w = sint w"
    using uint_sint [of w] by simp
  then show ?thesis
    by (simp add: unat_eq_nat_uint)
qed

lemma off_screen_iff: "off_screen col row \<longleftrightarrow> \<not> on_screen (sint col) (sint row)"
  by (auto simp: off_screen_def on_screen_def word_sless_alt SCREEN_X_END_def
      SCREEN_X_START_def SCREEN_Y_END_def SCREEN_Y_START_def)

lemma bytes_append: "bytes (es @ fs) = bytes es @ bytes fs"
  by (induction es rule: bytes.induct) simp_all

lemma bytes_map_Put: "bytes (map Put s) = s"
  by (induction s) simp_all

lemma Screen_MoveCursor_digits:
  assumes "0 \<le> sint col" "sint col \<le> 99" "0 \<le> sint row" "sint row \<le> 99"
  shows "Screen_MoveCursor col row =
           map Put (CHR 0x1B # CHR ''['' # two_digits (nat (sint row)) @
                    CHR '';'' # two_digits (nat (sint col)) @ ''H'')"
proof -
  have "UART_PrintNum col = map Put (two_digits (nat (sint col)))"
    using assms UART_PrintNum_two_digits [of col] by (simp add: unat_sint)
  moreover have "UART_PrintNum row = map Put (two_digits (nat (sint row)))"
    using assms UART_PrintNum_two_digits [of row] by (simp add: unat_sint)
  moreover have "putU1 0x1B = [Put (CHR 0x1B)]"
    by (simp add: putU1_def char_of_eq_iff)
  ultimately show ?thesis
    by (simp add: Screen_MoveCursor_def putU1_chr)
qed

lemma length_Screen_MoveCursor: "length (bytes (Screen_MoveCursor col row)) = 8"
  by (simp add: Screen_MoveCursor_def UART_PrintNum_def putU1_def)

lemma putU1_ESC: "putU1 0x1B = [Put (CHR 0x1B)]"
  by (simp add: putU1_def char_of_eq_iff)

lemma bytes_UART_PrintNum:
  "bytes (UART_PrintNum i) = [char_of (unat i div 10 + 48), digit_char (unat i mod 10)]"
proof -
  have "unat i < 4294967296"
    using unsigned_less [of i, where ?'a = nat] by simp
  then have "unat i div 10 + 48 < 4294967296"
    by arith
  then have "unat (i div 10 + 48) = unat i div 10 + 48"
    by (simp add: unat_word_ariths unat_div_mod_10)
  moreover have "unat (i mod 10) < 10"
    by (simp add: unat_div_mod_10)
  ultimately show ?thesis
    by (simp add: UART_PrintNum_def putU1_digit unat_div_mod_10) (simp add: putU1_def chr_def)
qed

lemma Screen_WriteChar_off: "\<not> on_screen (sint col) (sint row) \<Longrightarrow> Screen_WriteChar col row c = (Return 1, [])"
  by (simp add: Screen_WriteChar_def off_screen_iff)

lemma Screen_WriteNumber_off: "\<not> on_screen (sint col) (sint row) \<Longrightarrow> Screen_WriteNumber col row n = (Return 1, [])"
  by (simp add: Screen_WriteNumber_def off_screen_iff)

lemma Screen_WriteChar_on:
  "on_screen (sint col) (sint row) \<Longrightarrow>
     Screen_WriteChar col row c = (NoReturn, SchedLock # Screen_MoveCursor col row @ [Put c, SchedUnlock])"
  by (simp add: Screen_WriteChar_def off_screen_iff putU1_chr)

lemma Screen_WriteNumber_on:
  "on_screen (sint col) (sint row) \<Longrightarrow>
     Screen_WriteNumber col row n =
       (NoReturn, SchedLock # Screen_MoveCursor col row @ UART_PrintNum n @ [SchedUnlock])"
  by (simp add: Screen_WriteNumber_def off_screen_iff)

lemma bytes_Screen_MoveCursor_on:
  assumes "on_screen (sint col) (sint row)"
  shows "bytes (Screen_MoveCursor col row) =
           CHR 0x1B # CHR ''['' # two_digits (nat (sint row)) @
           CHR '';'' # two_digits (nat (sint col)) @ ''H''"
proof -
  have "0 \<le> sint col" "sint col \<le> 99" "0 \<le> sint row" "sint row \<le> 99"
    using assms by (simp_all add: on_screen_def)
  then show ?thesis
    by (simp only: Screen_MoveCursor_digits bytes_map_Put)
qed

subsection \<open>The ball task and the machine\<close>

lemma fst_App_TaskBall_body:
  "fst (App_TaskBall_body sw b) =
     (steer sw b)\<lparr>x := x b + x_delta (steer sw b), y := y b + y_delta (steer sw b)\<rparr>"
  by (simp add: App_TaskBall_body_def Let_def steer_def)

lemma snd_App_TaskBall_body:
  "snd (App_TaskBall_body sw b) =
     Delay 75 # snd (Screen_WriteChar (x b) (y b) CHR '' '') @
     snd (Screen_WriteChar (x (fst (App_TaskBall_body sw b))) (y (fst (App_TaskBall_body sw b))) CHR ''*'')"
  by (simp add: App_TaskBall_body_def Let_def)

lemma fst_App_TaskBall_loop_Cons:
  "fst (App_TaskBall_loop (sw # sws) b) = fst (App_TaskBall_loop sws (fst (App_TaskBall_body sw b)))"
  by (simp add: split_beta)

lemma fst_App_TaskBall:
  "fst (App_TaskBall sws) = fst (App_TaskBall_loop sws (fst App_TaskBall_init))"
  by (simp add: App_TaskBall_def split_beta)

lemma BALL_START: "BALL_X_START = 39" "BALL_Y_START = 12"
  by (simp_all add: BALL_X_START_def BALL_Y_START_def SCREEN_X_END_def SCREEN_X_START_def
      SCREEN_Y_END_def SCREEN_Y_START_def)

lemma fst_App_TaskBall_init: "fst App_TaskBall_init = \<lparr>x = 39, y = 12, x_delta = 1, y_delta = 0\<rparr>"
  by (simp add: App_TaskBall_init_def BALL_START)

lemma steer_ball_of:
  "steer sw (ball_of (d, c, r)) = ball_of (transition (asserted sw) d, c, r)"
  by (cases d)
    (simp_all add: steer_def transition_def asserted_def ball_of_def Ball_Up_def Ball_Down_def
      Ball_Left_def Ball_Right_def)

lemma body_ball_of:
  "fst (App_TaskBall_body sw (ball_of (d, c, r))) = ball_of (replay [asserted sw] (d, c, r))"
  by (simp add: fst_App_TaskBall_body steer_ball_of Let_def) (simp add: ball_of_def)

lemma loop_ball_of:
  "fst (App_TaskBall_loop sws (ball_of s)) = ball_of (replay (map asserted sws) s)"
proof (induction sws arbitrary: s)
  case Nil
  show ?case by simp
next
  case (Cons sw sws)
  obtain d c r where s: "s = (d, c, r)"
    by (cases s)
  have "fst (App_TaskBall_loop (sw # sws) (ball_of s)) =
        fst (App_TaskBall_loop sws (ball_of (replay [asserted sw] (d, c, r))))"
    by (simp only: fst_App_TaskBall_loop_Cons s body_ball_of)
  also have "\<dots> = ball_of (replay (map asserted sws) (replay [asserted sw] (d, c, r)))"
    by (rule Cons.IH)
  finally show ?case
    by (simp add: s Let_def)
qed

lemma replay_reach:
  "replay is (d, c, r) = (d', c', r') \<Longrightarrow>
     \<bar>c' - c\<bar> \<le> int (length is) \<and> \<bar>r' - r\<bar> \<le> int (length is)"
proof (induction "is" arbitrary: d c r)
  case Nil
  then show ?case by simp
next
  case (Cons i "is")
  let ?d = "transition i d"
  from Cons.prems have "replay is (?d, c + fst (velocity ?d), r + snd (velocity ?d)) = (d', c', r')"
    by (simp add: Let_def)
  from Cons.IH [OF this]
  have "\<bar>c' - (c + fst (velocity ?d))\<bar> \<le> int (length is)"
    "\<bar>r' - (r + snd (velocity ?d))\<bar> \<le> int (length is)"
    by simp_all
  moreover have "\<bar>fst (velocity ?d)\<bar> \<le> 1" "\<bar>snd (velocity ?d)\<bar> \<le> 1"
    by (cases ?d; simp)+
  ultimately show ?case
    by simp (intro conjI; linarith)
qed

lemma sint_word_of_int:
  assumes "- 2147483648 \<le> k" "k < 2147483648"
  shows "sint (word_of_int k :: c_int) = k"
  using assms by (simp add: sint_sbintrunc' signed_take_bit_int_eq_self)

lemma steer_released: "steer released b = b"
  by (simp add: steer_def released_def Ball_Up_def Ball_Down_def Ball_Left_def Ball_Right_def
      RIGHT_UP_SW_def RIGHT_DOWN_SW_def LEFT_UP_SW_def LEFT_DOWN_SW_def)

lemma coast:
  "fst (App_TaskBall_loop (replicate n released) b) =
     b\<lparr>x := x b + of_nat n * x_delta b, y := y b + of_nat n * y_delta b\<rparr>"
proof (induction n arbitrary: b)
  case 0
  show ?case by simp
next
  case (Suc n)
  show ?case
    by (simp add: split_beta fst_App_TaskBall_body steer_released Suc.IH algebra_simps)
qed

lemma App_TaskBall_ball_of:
  "fst (App_TaskBall sws) = ball_of (replay (map asserted sws) (MovingRight, 39, 12))"
proof -
  have "fst App_TaskBall_init = ball_of (MovingRight, 39, 12)"
    by (simp add: fst_App_TaskBall_init ball_of_def)
  then show ?thesis
    by (simp only: fst_App_TaskBall loop_ball_of)
qed

lemma App_TaskBall_sint:
  assumes len: "length sws < 2147483609"
    and rep: "replay (map asserted sws) (MovingRight, 39, 12) = (d, c, r)"
  shows "sint (x (fst (App_TaskBall sws))) = c" and "sint (y (fst (App_TaskBall sws))) = r"
proof -
  from replay_reach [OF rep]
  have "\<bar>c - 39\<bar> \<le> int (length sws)" "\<bar>r - 12\<bar> \<le> int (length sws)"
    by simp_all
  with len have c: "- 2147483648 \<le> c" "c < 2147483648" and r: "- 2147483648 \<le> r" "r < 2147483648"
    by linarith+
  have "x (fst (App_TaskBall sws)) = word_of_int c" "y (fst (App_TaskBall sws)) = word_of_int r"
    by (simp_all add: App_TaskBall_ball_of rep ball_of_def)
  then show "sint (x (fst (App_TaskBall sws))) = c" and "sint (y (fst (App_TaskBall sws))) = r"
    using c r by (simp_all only: sint_word_of_int)
qed

lemma axis_aligned_steer: "axis_aligned b \<Longrightarrow> axis_aligned (steer sw b)"
  by (simp add: axis_aligned_def steer_def)

lemma axis_aligned_body: "axis_aligned b \<Longrightarrow> axis_aligned (fst (App_TaskBall_body sw b))"
  using axis_aligned_steer [of b sw] by (simp add: fst_App_TaskBall_body axis_aligned_def)

lemma axis_aligned_loop: "axis_aligned b \<Longrightarrow> axis_aligned (fst (App_TaskBall_loop sws b))"
proof (induction sws arbitrary: b)
  case Nil
  then show ?case by simp
next
  case (Cons sw sws)
  from Cons.prems have "axis_aligned (fst (App_TaskBall_body sw b))"
    by (rule axis_aligned_body)
  then have "axis_aligned (fst (App_TaskBall_loop sws (fst (App_TaskBall_body sw b))))"
    by (rule Cons.IH)
  then show ?case
    by (simp only: fst_App_TaskBall_loop_Cons)
qed

lemma axis_aligned_init: "axis_aligned (fst App_TaskBall_init)"
  by (simp add: fst_App_TaskBall_init axis_aligned_def)

lemma coast_right:
  "fst (App_TaskBall (replicate n released)) =
     \<lparr>x = 39 + of_nat n, y = 12, x_delta = 1, y_delta = 0\<rparr>"
  by (simp add: fst_App_TaskBall coast fst_App_TaskBall_init)

lemma sint_coast_right:
  assumes "39 + int n < 2147483648"
  shows "sint (39 + of_nat n :: c_int) = 39 + int n"
proof -
  have "(39 + of_nat n :: c_int) = word_of_int (39 + int n)"
    by simp
  then show ?thesis
    using assms by (simp only: sint_word_of_int)
qed

subsection \<open>Lock holds\<close>

lemma Screen_MoveCursor_Puts: "Screen_MoveCursor col row = map Put (bytes (Screen_MoveCursor col row))"
  by (simp add: Screen_MoveCursor_def UART_PrintNum_def putU1_def)

lemma holds_Puts: "holds (Some h) (map Put s @ es) = holds (Some (h @ map Put s)) es"
  by (induction s arbitrary: h) simp_all

lemma unlocked_bytes_Puts: "unlocked_bytes True (map Put s @ es) = unlocked_bytes True es"
  by (induction s) simp_all

lemma holds_Screen_WriteChar:
  "holds None (snd (Screen_WriteChar col row c) @ es) =
     (if on_screen (sint col) (sint row) then [Screen_MoveCursor col row @ [Put c]] else []) @
     holds None es"
proof (cases "on_screen (sint col) (sint row)")
  case True
  have "holds (Some []) (map Put (bytes (Screen_MoveCursor col row)) @ Put c # SchedUnlock # es) =
        (map Put (bytes (Screen_MoveCursor col row)) @ [Put c]) # holds None es"
    by (simp only: holds_Puts) simp
  then show ?thesis
    using True by (simp add: Screen_WriteChar_on) (simp only: Screen_MoveCursor_Puts [symmetric])
next
  case False
  then show ?thesis
    by (simp add: Screen_WriteChar_off)
qed

lemma unlocked_bytes_Screen_WriteChar:
  "unlocked_bytes False (snd (Screen_WriteChar col row c) @ es) = unlocked_bytes False es"
proof (cases "on_screen (sint col) (sint row)")
  case True
  have "unlocked_bytes True (map Put (bytes (Screen_MoveCursor col row)) @ Put c # SchedUnlock # es) =
        unlocked_bytes False es"
    by (simp only: unlocked_bytes_Puts) simp
  then show ?thesis
    using True by (simp add: Screen_WriteChar_on) (simp only: Screen_MoveCursor_Puts [symmetric])
next
  case False
  then show ?thesis
    by (simp add: Screen_WriteChar_off)
qed

lemma holds_Screen_WriteChar_end:
  "holds None (snd (Screen_WriteChar col row c)) =
     (if on_screen (sint col) (sint row) then [Screen_MoveCursor col row @ [Put c]] else [])"
  using holds_Screen_WriteChar [of col row c "[]"] by simp

lemma unlocked_bytes_Screen_WriteChar_end:
  "unlocked_bytes False (snd (Screen_WriteChar col row c)) = []"
  using unlocked_bytes_Screen_WriteChar [of col row c "[]"] by simp

lemma snd_Screen_WriteChar:
  "snd (Screen_WriteChar col row c) =
     (if on_screen (sint col) (sint row)
      then SchedLock # Screen_MoveCursor col row @ [Put c, SchedUnlock] else [])"
  by (simp add: Screen_WriteChar_on Screen_WriteChar_off)

section \<open>The claims\<close>

subsection \<open>Cursor positioning\<close>

text \<open>
  Claim C3. \<^verbatim>\<open>Screen_MoveCursor\<close> called with column 12 and row 13 sends exactly
  ESC, \<open>[\<close>, \<open>1\<close>, \<open>3\<close>, \<open>;\<close>, \<open>1\<close>, \<open>2\<close>, \<open>H\<close>: the row first. For every column and row
  between 0 and 99 it sends ESC, \<open>[\<close>, the row as two decimal digits, \<open>;\<close>, the column as
  two decimal digits, \<open>H\<close>, and nothing else. It checks no bound: whatever the
  arguments, it sends eight bytes.
\<close>

theorem Screen_MoveCursor_sequence:
  "bytes (Screen_MoveCursor 12 13) = CHR 0x1B # ''[13;12H'' \<and>
   (\<forall>col row. 0 \<le> sint col \<and> sint col \<le> 99 \<and> 0 \<le> sint row \<and> sint row \<le> 99 \<longrightarrow>
      Screen_MoveCursor col row =
        map Put (CHR 0x1B # CHR ''['' # two_digits (nat (sint row)) @
                 CHR '';'' # two_digits (nat (sint col)) @ ''H'')) \<and>
   (\<forall>col row. length (Screen_MoveCursor col row) = 8 \<and>
      length (bytes (Screen_MoveCursor col row)) = 8)"
proof (intro conjI allI impI)
  show "bytes (Screen_MoveCursor 12 13) = CHR 0x1B # ''[13;12H''"
    by (simp add: Screen_MoveCursor_def UART_PrintNum_def putU1_def chr_def char_of_eq_iff)
next
  fix col row :: c_int
  assume "0 \<le> sint col \<and> sint col \<le> 99 \<and> 0 \<le> sint row \<and> sint row \<le> 99"
  then show "Screen_MoveCursor col row =
        map Put (CHR 0x1B # CHR ''['' # two_digits (nat (sint row)) @
                 CHR '';'' # two_digits (nat (sint col)) @ ''H'')"
    by (simp add: Screen_MoveCursor_digits)
next
  fix col row :: c_int
  show "length (Screen_MoveCursor col row) = 8"
    by (simp add: Screen_MoveCursor_def UART_PrintNum_def putU1_def)
  show "length (bytes (Screen_MoveCursor col row)) = 8"
    by (rule length_Screen_MoveCursor)
qed

theorem Screen_MoveCursor_sequence_witness:
  "Screen_MoveCursor 0 99 = map Put (CHR 0x1B # ''[99;00H'')"
proof -
  have "(0::int) \<le> sint (0::c_int) \<and> sint (0::c_int) \<le> 99 \<and>
        0 \<le> sint (99::c_int) \<and> sint (99::c_int) \<le> 99"
    by simp
  with Screen_MoveCursor_sequence
  have "Screen_MoveCursor 0 99 =
        map Put (CHR 0x1B # CHR ''['' # two_digits (nat (sint (99::c_int))) @
                 CHR '';'' # two_digits (nat (sint (0::c_int))) @ ''H'')"
    by blast
  then show ?thesis
    by (simp add: two_digits_def digit_char_def)
qed

subsection \<open>Writing at a position\<close>

text \<open>
  Claim C1. For every column and row on the screen (columns 1 to 80, rows 1 to 25),
  \<^verbatim>\<open>Screen_WriteChar\<close> and \<^verbatim>\<open>Screen_WriteNumber\<close> do not take the error exit, and
  the bytes they send are exactly the cursor sequence for that column and row followed
  by the content: the one character, or the bytes of the number. For every other
  column and row they return 1 and produce no event at all, so no byte reaches the
  transport.
\<close>

theorem Screen_Write_bounds:
  "(on_screen (sint col) (sint row) \<longrightarrow>
      fst (Screen_WriteChar col row c) \<noteq> Return 1 \<and>
      bytes (snd (Screen_WriteChar col row c)) = bytes (Screen_MoveCursor col row) @ [c] \<and>
      fst (Screen_WriteNumber col row n) \<noteq> Return 1 \<and>
      bytes (snd (Screen_WriteNumber col row n)) =
        bytes (Screen_MoveCursor col row) @ bytes (UART_PrintNum n) \<and>
      bytes (Screen_MoveCursor col row) =
        CHR 0x1B # CHR ''['' # two_digits (nat (sint row)) @
        CHR '';'' # two_digits (nat (sint col)) @ ''H'') \<and>
   (\<not> on_screen (sint col) (sint row) \<longrightarrow>
      Screen_WriteChar col row c = (Return 1, []) \<and>
      Screen_WriteNumber col row n = (Return 1, []))"
proof (intro conjI impI)
  assume on: "on_screen (sint col) (sint row)"
  show "fst (Screen_WriteChar col row c) \<noteq> Return 1"
    using on by (simp add: Screen_WriteChar_on)
  show "bytes (snd (Screen_WriteChar col row c)) = bytes (Screen_MoveCursor col row) @ [c]"
    using on by (simp add: Screen_WriteChar_on bytes_append)
  show "fst (Screen_WriteNumber col row n) \<noteq> Return 1"
    using on by (simp add: Screen_WriteNumber_on)
  show "bytes (snd (Screen_WriteNumber col row n)) =
        bytes (Screen_MoveCursor col row) @ bytes (UART_PrintNum n)"
    using on by (simp add: Screen_WriteNumber_on bytes_append)
  show "bytes (Screen_MoveCursor col row) =
        CHR 0x1B # CHR ''['' # two_digits (nat (sint row)) @
        CHR '';'' # two_digits (nat (sint col)) @ ''H''"
    using on by (rule bytes_Screen_MoveCursor_on)
next
  assume off: "\<not> on_screen (sint col) (sint row)"
  show "Screen_WriteChar col row c = (Return 1, [])"
    using off by (rule Screen_WriteChar_off)
  show "Screen_WriteNumber col row n = (Return 1, [])"
    using off by (rule Screen_WriteNumber_off)
qed

theorem Screen_Write_bounds_witness:
  "on_screen (sint (39 :: c_int)) (sint (12 :: c_int)) \<and>
   bytes (snd (Screen_WriteChar 39 12 CHR ''*'')) = CHR 0x1B # ''[12;39H*'' \<and>
   bytes (snd (Screen_WriteNumber 39 12 7)) = CHR 0x1B # ''[12;39H07'' \<and>
   \<not> on_screen (sint (81 :: c_int)) (sint (12 :: c_int)) \<and>
   Screen_WriteChar 81 12 CHR ''*'' = (Return 1, []) \<and>
   Screen_WriteNumber 39 0 7 = (Return 1, [])"
proof -
  have on: "on_screen (sint (39 :: c_int)) (sint (12 :: c_int))"
    by (simp add: on_screen_def)
  have off: "\<not> on_screen (sint (81 :: c_int)) (sint (12 :: c_int))"
    "\<not> on_screen (sint (39 :: c_int)) (sint (0 :: c_int))"
    by (simp_all add: on_screen_def)
  have seven: "bytes (UART_PrintNum 7) = ''07''"
    by (simp add: bytes_UART_PrintNum digit_char_def char_of_eq_iff)
  from on Screen_Write_bounds [of 39 12 "CHR ''*''" 7]
  have "bytes (snd (Screen_WriteChar 39 12 CHR ''*'')) = CHR 0x1B # ''[12;39H*''"
    and "bytes (snd (Screen_WriteNumber 39 12 7)) = CHR 0x1B # ''[12;39H07''"
    by (simp_all add: two_digits_def digit_char_def seven)
  moreover from off Screen_Write_bounds [of 81 12 "CHR ''*''" 7]
  have "Screen_WriteChar 81 12 CHR ''*'' = (Return 1, [])"
    by simp
  moreover from off Screen_Write_bounds [of 39 0 "CHR ''*''" 7]
  have "Screen_WriteNumber 39 0 7 = (Return 1, [])"
    by simp
  ultimately show ?thesis
    using on off by simp
qed

text \<open>
  Claim C10. On the screen, \<^verbatim>\<open>Screen_WriteChar\<close> and \<^verbatim>\<open>Screen_WriteNumber\<close> reach
  the end of their body without a \<^verbatim>\<open>return\<close> statement: they hand back no value.
  Only off the screen do they return a value, which is 1.
\<close>

theorem Screen_Write_return:
  "(on_screen (sint col) (sint row) \<longrightarrow>
      fst (Screen_WriteChar col row c) = NoReturn \<and>
      fst (Screen_WriteNumber col row n) = NoReturn) \<and>
   (\<not> on_screen (sint col) (sint row) \<longrightarrow>
      fst (Screen_WriteChar col row c) = Return 1 \<and>
      fst (Screen_WriteNumber col row n) = Return 1)"
  by (simp add: Screen_WriteChar_on Screen_WriteNumber_on Screen_WriteChar_off
      Screen_WriteNumber_off)

theorem Screen_Write_return_witness:
  "fst (Screen_WriteChar 39 12 CHR ''*'') = NoReturn \<and>
   fst (Screen_WriteNumber 3 3 0) = NoReturn \<and>
   fst (Screen_WriteChar 39 26 CHR ''*'') = Return 1 \<and>
   fst (Screen_WriteNumber 0 3 0) = Return 1"
  using Screen_Write_return [of 39 12 "CHR ''*''" 0] Screen_Write_return [of 3 3 "CHR ''*''" 0]
    Screen_Write_return [of 39 26 "CHR ''*''" 0] Screen_Write_return [of 0 3 "CHR ''*''" 0]
  by (simp add: on_screen_def)

subsection \<open>The number field\<close>

text \<open>
  Claim C5, as stated, fails: the number 100 is not sent as its value modulo 100. At
  column 3, row 3, the bytes after the cursor sequence are \<open>:\<close> and \<open>0\<close>, not two zeros.
\<close>

theorem UART_PrintNum_field_counterexample:
  "bytes (snd (Screen_WriteNumber 3 3 100)) = CHR 0x1B # ''[03;03H:0'' \<and>
   bytes (snd (Screen_WriteNumber 3 3 100)) \<noteq> CHR 0x1B # ''[03;03H'' @ two_digits (100 mod 100)"
  by (simp add: Screen_WriteNumber_def off_screen_iff on_screen_def bytes_append
      Screen_MoveCursor_def bytes_UART_PrintNum putU1_chr putU1_ESC two_digits_def digit_char_def
      char_of_eq_iff)

text \<open>
  Claim C5, amended. \<^verbatim>\<open>UART_PrintNum\<close> sends a number between 0 and 99 as two decimal
  digits, padded with a zero. For every argument it sends two bytes: the character
  with code 48 plus the tens (the unsigned value divided by ten), taken modulo 256,
  and the digit of the units. From 100 up to 2079 the first byte is not a decimal
  digit. On the screen, \<^verbatim>\<open>Screen_WriteNumber\<close> sends the cursor sequence followed by
  these two bytes.
\<close>

theorem UART_PrintNum_field:
  "(0 \<le> sint i \<and> sint i \<le> 99 \<longrightarrow> bytes (UART_PrintNum i) = two_digits (nat (sint i))) \<and>
   bytes (UART_PrintNum i) = [char_of (unat i div 10 + 48), digit_char (unat i mod 10)] \<and>
   (100 \<le> unat i \<and> unat i < 2080 \<longrightarrow>
      hd (bytes (UART_PrintNum i)) \<notin> set ''0123456789'') \<and>
   (on_screen (sint col) (sint row) \<longrightarrow>
      bytes (snd (Screen_WriteNumber col row i)) =
        bytes (Screen_MoveCursor col row) @ bytes (UART_PrintNum i))"
proof (intro conjI impI)
  assume "0 \<le> sint i \<and> sint i \<le> 99"
  then have "unat i < 100" "unat i = nat (sint i)"
    by (auto simp: unat_sint)
  then show "bytes (UART_PrintNum i) = two_digits (nat (sint i))"
    using UART_PrintNum_two_digits [of i] by (simp add: bytes_map_Put)
next
  show "bytes (UART_PrintNum i) = [char_of (unat i div 10 + 48), digit_char (unat i mod 10)]"
    by (rule bytes_UART_PrintNum)
next
  assume r: "100 \<le> unat i \<and> unat i < 2080"
  define k where "k = unat i div 10 + 48"
  have k: "58 \<le> k" "k < 256"
    using r unfolding k_def by arith+
  have "of_char (char_of k) = k"
    using k by simp
  moreover have "\<forall>d \<in> set ''0123456789''. (of_char d :: nat) < 58"
    by simp
  ultimately have notin: "char_of k \<notin> set ''0123456789''"
    using k by (metis not_less)
  have "hd (bytes (UART_PrintNum i)) = char_of k"
    by (simp add: bytes_UART_PrintNum k_def)
  with notin show "hd (bytes (UART_PrintNum i)) \<notin> set ''0123456789''"
    by (simp only: not_False_eq_True)
next
  assume "on_screen (sint col) (sint row)"
  then show "bytes (snd (Screen_WriteNumber col row i)) =
        bytes (Screen_MoveCursor col row) @ bytes (UART_PrintNum i)"
    by (simp add: Screen_WriteNumber_on bytes_append)
qed

theorem UART_PrintNum_field_witness:
  "bytes (UART_PrintNum 7) = ''07'' \<and> bytes (UART_PrintNum 99) = ''99'' \<and>
   bytes (UART_PrintNum 107) = '':7'' \<and> hd (bytes (UART_PrintNum 107)) \<notin> set ''0123456789'' \<and>
   bytes (snd (Screen_WriteNumber 3 3 7)) = bytes (Screen_MoveCursor 3 3) @ ''07''"
proof -
  have "bytes (UART_PrintNum 7) = ''07''" "bytes (UART_PrintNum 99) = ''99''"
    using UART_PrintNum_field [of 7 0 0] UART_PrintNum_field [of 99 0 0]
    by (simp_all add: two_digits_def digit_char_def)
  moreover have "bytes (UART_PrintNum 107) = '':7''"
    "hd (bytes (UART_PrintNum 107)) \<notin> set ''0123456789''"
    using UART_PrintNum_field [of 107 0 0]
    by (simp_all add: digit_char_def char_of_eq_iff)
  moreover have "bytes (snd (Screen_WriteNumber 3 3 7)) = bytes (Screen_MoveCursor 3 3) @ ''07''"
    using UART_PrintNum_field [of 7 3 3] calculation(1)
    by (simp add: on_screen_def)
  ultimately show ?thesis
    by simp
qed

subsection \<open>The ball task\<close>

text \<open>
  Claim C2. The ball task is the machine with the four states \<open>MovingUp\<close>, \<open>MovingDown\<close>,
  \<open>MovingLeft\<close>, \<open>MovingRight\<close>, started in \<open>MovingRight\<close>. On every tick it tries the
  inputs in a fixed order (up, down, the input giving \<open>dx = -1\<close>, the input giving
  \<open>dx = +1\<close>), keeps its velocity when none is asserted, and then moves by its velocity.
  So for every list of switch samples, one for each tick, the variables of the task
  after the last tick are those of the replay of the transition table from column 39,
  row 12; as long as the machine integers cannot overflow, the position read as signed
  integers is the position of the replay. With no button pressed for five ticks and
  velocity \<open>(1, 0)\<close>, the column grows by five and nothing else changes.
\<close>

theorem App_TaskBall_replay:
  "fst App_TaskBall_init = ball_of (MovingRight, 39, 12) \<and>
   fst (App_TaskBall_body sw (ball_of (d, c, r))) = ball_of (replay [asserted sw] (d, c, r)) \<and>
   fst (App_TaskBall sws) = ball_of (replay (map asserted sws) (MovingRight, 39, 12)) \<and>
   (length sws < 2147483609 \<longrightarrow>
      (sint (x (fst (App_TaskBall sws))), sint (y (fst (App_TaskBall sws)))) =
        snd (replay (map asserted sws) (MovingRight, 39, 12))) \<and>
   (x_delta b = 1 \<and> y_delta b = 0 \<longrightarrow>
      fst (App_TaskBall_loop (replicate 5 released) b) = b\<lparr>x := x b + 5\<rparr>)"
proof (intro conjI impI)
  show "fst App_TaskBall_init = ball_of (MovingRight, 39, 12)"
    by (simp add: fst_App_TaskBall_init ball_of_def)
  show "fst (App_TaskBall_body sw (ball_of (d, c, r))) = ball_of (replay [asserted sw] (d, c, r))"
    by (rule body_ball_of)
  show "fst (App_TaskBall sws) = ball_of (replay (map asserted sws) (MovingRight, 39, 12))"
    by (rule App_TaskBall_ball_of)
next
  assume len: "length sws < 2147483609"
  obtain d' c' r' where rep: "replay (map asserted sws) (MovingRight, 39, 12) = (d', c', r')"
    by (cases "replay (map asserted sws) (MovingRight, 39, 12)")
  show "(sint (x (fst (App_TaskBall sws))), sint (y (fst (App_TaskBall sws)))) =
        snd (replay (map asserted sws) (MovingRight, 39, 12))"
    using App_TaskBall_sint [OF len rep] by (simp add: rep)
next
  assume "x_delta b = 1 \<and> y_delta b = 0"
  then show "fst (App_TaskBall_loop (replicate 5 released) b) = b\<lparr>x := x b + 5\<rparr>"
    by (simp add: coast)
qed

theorem App_TaskBall_replay_witness:
  "fst (App_TaskBall [released, released\<lparr>BTN1 := 1\<rparr>, released, released\<lparr>BTN3 := 1, BTN4 := 1\<rparr>]) =
     \<lparr>x = 39, y = 14, x_delta = - 1, y_delta = 0\<rparr> \<and>
   (sint (x (fst (App_TaskBall [released, released\<lparr>BTN1 := 1\<rparr>, released]))),
    sint (y (fst (App_TaskBall [released, released\<lparr>BTN1 := 1\<rparr>, released])))) = (40, 14) \<and>
   fst (App_TaskBall_loop (replicate 5 released) \<lparr>x = 39, y = 12, x_delta = 1, y_delta = 0\<rparr>) =
     \<lparr>x = 44, y = 12, x_delta = 1, y_delta = 0\<rparr>"
proof -
  have a: "asserted released = \<lparr>in_up = False, in_down = False, in_left = False, in_right = False\<rparr>"
    "asserted (released\<lparr>BTN1 := 1\<rparr>) =
       \<lparr>in_up = True, in_down = False, in_left = False, in_right = False\<rparr>"
    "asserted (released\<lparr>BTN3 := 1, BTN4 := 1\<rparr>) =
       \<lparr>in_up = False, in_down = False, in_left = True, in_right = True\<rparr>"
    by (simp_all add: asserted_def released_def RIGHT_UP_SW_def RIGHT_DOWN_SW_def LEFT_UP_SW_def
        LEFT_DOWN_SW_def)
  let ?b = "\<lparr>x = 39, y = 12, x_delta = 1, y_delta = 0\<rparr> :: ball"
  have "fst (App_TaskBall [released, released\<lparr>BTN1 := 1\<rparr>, released, released\<lparr>BTN3 := 1, BTN4 := 1\<rparr>]) =
     \<lparr>x = 39, y = 14, x_delta = - 1, y_delta = 0\<rparr>"
    using App_TaskBall_replay
      [of released MovingRight 39 12
        "[released, released\<lparr>BTN1 := 1\<rparr>, released, released\<lparr>BTN3 := 1, BTN4 := 1\<rparr>]" ?b,
        THEN conjunct2, THEN conjunct2, THEN conjunct1]
    by (simp add: a transition_def ball_of_def Let_def)
  moreover have "(sint (x (fst (App_TaskBall [released, released\<lparr>BTN1 := 1\<rparr>, released]))),
    sint (y (fst (App_TaskBall [released, released\<lparr>BTN1 := 1\<rparr>, released])))) = (40, 14)"
    using App_TaskBall_replay
      [of released MovingRight 39 12 "[released, released\<lparr>BTN1 := 1\<rparr>, released]" ?b,
        THEN conjunct2, THEN conjunct2, THEN conjunct2, THEN conjunct1]
    by (simp add: a transition_def Let_def)
  moreover have "fst (App_TaskBall_loop (replicate 5 released) ?b) =
     \<lparr>x = 44, y = 12, x_delta = 1, y_delta = 0\<rparr>"
    using App_TaskBall_replay
      [of released MovingRight 39 12 "[]" ?b,
        THEN conjunct2, THEN conjunct2, THEN conjunct2, THEN conjunct2]
    by simp
  ultimately show ?thesis
    by (intro conjI)
qed

text \<open>
  Claim C6. The velocity of the ball is always along one axis: it is so at the start,
  the resolution of the inputs and a whole tick both keep it so, and therefore after
  any number of ticks the velocity is one of \<open>(1, 0)\<close>, \<open>(-1, 0)\<close>, \<open>(0, 1)\<close>, \<open>(0, -1)\<close>,
  with at most one of the two components different from zero.
\<close>

theorem velocity_axis_aligned:
  "axis_aligned (fst App_TaskBall_init) \<and>
   (axis_aligned b \<longrightarrow> axis_aligned (steer sw b) \<and> axis_aligned (fst (App_TaskBall_body sw b))) \<and>
   axis_aligned (fst (App_TaskBall sws)) \<and>
   (x_delta (fst (App_TaskBall sws)) = 0 \<or> y_delta (fst (App_TaskBall sws)) = 0)"
proof -
  have run: "axis_aligned (fst (App_TaskBall sws))"
    using axis_aligned_init by (simp only: fst_App_TaskBall axis_aligned_loop)
  then have "x_delta (fst (App_TaskBall sws)) = 0 \<or> y_delta (fst (App_TaskBall sws)) = 0"
    by (auto simp: axis_aligned_def)
  with run show ?thesis
    by (simp add: axis_aligned_init axis_aligned_steer axis_aligned_body)
qed

theorem velocity_axis_aligned_witness:
  "axis_aligned \<lparr>x = 80, y = 25, x_delta = 0, y_delta = - 1\<rparr> \<and>
   axis_aligned (steer (released\<lparr>BTN4 := 1\<rparr>) \<lparr>x = 80, y = 25, x_delta = 0, y_delta = - 1\<rparr>) \<and>
   x_delta (steer (released\<lparr>BTN4 := 1\<rparr>) \<lparr>x = 80, y = 25, x_delta = 0, y_delta = - 1\<rparr>) = - 1 \<and>
   axis_aligned (fst (App_TaskBall_body (released\<lparr>BTN4 := 1\<rparr>)
     \<lparr>x = 80, y = 25, x_delta = 0, y_delta = - 1\<rparr>))"
proof -
  have ax: "axis_aligned \<lparr>x = 80, y = 25, x_delta = 0, y_delta = - 1\<rparr>"
    by (simp add: axis_aligned_def)
  have "x_delta (steer (released\<lparr>BTN4 := 1\<rparr>) \<lparr>x = 80, y = 25, x_delta = 0, y_delta = - 1\<rparr>) = - 1"
    by (simp add: steer_def released_def Ball_Up_def Ball_Down_def Ball_Left_def Ball_Right_def
      RIGHT_UP_SW_def RIGHT_DOWN_SW_def LEFT_UP_SW_def LEFT_DOWN_SW_def)
  with ax velocity_axis_aligned
    [of "\<lparr>x = 80, y = 25, x_delta = 0, y_delta = - 1\<rparr>" "released\<lparr>BTN4 := 1\<rparr>" "[]"]
  show ?thesis
    by simp
qed

text \<open>
  Claim C8. \<^verbatim>\<open>Ball_Up\<close> reads \<^verbatim>\<open>RIGHT_UP_SW\<close>, \<^verbatim>\<open>Ball_Down\<close> reads \<^verbatim>\<open>RIGHT_DOWN_SW\<close>,
  \<^verbatim>\<open>Ball_Left\<close> reads \<^verbatim>\<open>LEFT_UP_SW\<close> and \<^verbatim>\<open>Ball_Right\<close> reads \<^verbatim>\<open>LEFT_DOWN_SW\<close>: each
  returns 1 exactly when its switch is not zero and 0 otherwise, whatever the other
  three buttons are.
\<close>

theorem Ball_switches:
  "(Ball_Up sw = 1 \<longleftrightarrow> RIGHT_UP_SW sw \<noteq> 0) \<and> (Ball_Up sw = 0 \<longleftrightarrow> RIGHT_UP_SW sw = 0) \<and>
   (Ball_Down sw = 1 \<longleftrightarrow> RIGHT_DOWN_SW sw \<noteq> 0) \<and> (Ball_Down sw = 0 \<longleftrightarrow> RIGHT_DOWN_SW sw = 0) \<and>
   (Ball_Left sw = 1 \<longleftrightarrow> LEFT_UP_SW sw \<noteq> 0) \<and> (Ball_Left sw = 0 \<longleftrightarrow> LEFT_UP_SW sw = 0) \<and>
   (Ball_Right sw = 1 \<longleftrightarrow> LEFT_DOWN_SW sw \<noteq> 0) \<and> (Ball_Right sw = 0 \<longleftrightarrow> LEFT_DOWN_SW sw = 0) \<and>
   Ball_Up (sw\<lparr>BTN2 := b2, BTN3 := b3, BTN4 := b4\<rparr>) = Ball_Up sw \<and>
   Ball_Down (sw\<lparr>BTN1 := b1, BTN3 := b3, BTN4 := b4\<rparr>) = Ball_Down sw \<and>
   Ball_Left (sw\<lparr>BTN1 := b1, BTN2 := b2, BTN4 := b4\<rparr>) = Ball_Left sw \<and>
   Ball_Right (sw\<lparr>BTN1 := b1, BTN2 := b2, BTN3 := b3\<rparr>) = Ball_Right sw"
  by (simp add: Ball_Up_def Ball_Down_def Ball_Left_def Ball_Right_def
      RIGHT_UP_SW_def RIGHT_DOWN_SW_def LEFT_UP_SW_def LEFT_DOWN_SW_def)

text \<open>
  Claim C7. The ball task handles no collision. On every tick, from every position,
  the new position is the old one plus the velocity, and the velocity the tick ends
  with does not depend on the position; with no button pressed it is the velocity the
  tick started with. So with no button pressed the column is 39 plus the number of
  ticks, as far as a machine integer goes: it leaves the screen, and it passes every
  bound below the largest \<^verbatim>\<open>int\<close>.
\<close>

theorem no_collision_handling:
  "x (fst (App_TaskBall_body sw b)) = x b + x_delta (fst (App_TaskBall_body sw b)) \<and>
   y (fst (App_TaskBall_body sw b)) = y b + y_delta (fst (App_TaskBall_body sw b)) \<and>
   x_delta (fst (App_TaskBall_body sw (b\<lparr>x := px, y := py\<rparr>))) =
     x_delta (fst (App_TaskBall_body sw b)) \<and>
   y_delta (fst (App_TaskBall_body sw (b\<lparr>x := px, y := py\<rparr>))) =
     y_delta (fst (App_TaskBall_body sw b)) \<and>
   x_delta (fst (App_TaskBall_body released b)) = x_delta b \<and>
   y_delta (fst (App_TaskBall_body released b)) = y_delta b \<and>
   (39 + int n < 2147483648 \<longrightarrow>
      sint (x (fst (App_TaskBall (replicate n released)))) = 39 + int n \<and>
      sint (y (fst (App_TaskBall (replicate n released)))) = 12 \<and>
      x_delta (fst (App_TaskBall (replicate n released))) = 1 \<and>
      y_delta (fst (App_TaskBall (replicate n released))) = 0) \<and>
   (sint bound < 2147483647 \<longrightarrow>
      (\<exists>k. bound <s x (fst (App_TaskBall (replicate k released)))))"
proof (intro conjI impI)
  show "x (fst (App_TaskBall_body sw b)) = x b + x_delta (fst (App_TaskBall_body sw b))"
    and "y (fst (App_TaskBall_body sw b)) = y b + y_delta (fst (App_TaskBall_body sw b))"
    by (simp_all add: fst_App_TaskBall_body steer_def)
  show "x_delta (fst (App_TaskBall_body sw (b\<lparr>x := px, y := py\<rparr>))) =
     x_delta (fst (App_TaskBall_body sw b))"
    and "y_delta (fst (App_TaskBall_body sw (b\<lparr>x := px, y := py\<rparr>))) =
     y_delta (fst (App_TaskBall_body sw b))"
    by (simp_all add: fst_App_TaskBall_body steer_def)
  show "x_delta (fst (App_TaskBall_body released b)) = x_delta b"
    and "y_delta (fst (App_TaskBall_body released b)) = y_delta b"
    by (simp_all add: fst_App_TaskBall_body steer_released)
next
  assume n: "39 + int n < 2147483648"
  show "sint (x (fst (App_TaskBall (replicate n released)))) = 39 + int n"
    using sint_coast_right [OF n] by (simp add: coast_right)
  show "sint (y (fst (App_TaskBall (replicate n released)))) = 12"
    and "x_delta (fst (App_TaskBall (replicate n released))) = 1"
    and "y_delta (fst (App_TaskBall (replicate n released))) = 0"
    by (simp_all add: coast_right)
next
  assume bound: "sint bound < 2147483647"
  define k where "k = nat (sint bound + 1 - 39)"
  have k: "39 + int k < 2147483648" "sint bound < 39 + int k"
    using bound by (simp_all add: k_def)
  have "sint (x (fst (App_TaskBall (replicate k released)))) = 39 + int k"
    using sint_coast_right [OF k(1)] by (simp add: coast_right)
  with k(2) have "bound <s x (fst (App_TaskBall (replicate k released)))"
    by (simp add: word_sless_alt)
  then show "\<exists>k. bound <s x (fst (App_TaskBall (replicate k released)))"
    by (rule exI)
qed

theorem no_collision_handling_witness:
  "sint (x (fst (App_TaskBall (replicate 50 released)))) = 89 \<and>
   sint (y (fst (App_TaskBall (replicate 50 released)))) = 12 \<and>
   x_delta (fst (App_TaskBall (replicate 50 released))) = 1 \<and>
   \<not> on_screen (sint (x (fst (App_TaskBall (replicate 50 released)))))
       (sint (y (fst (App_TaskBall (replicate 50 released))))) \<and>
   (\<exists>k. 1000000 <s x (fst (App_TaskBall (replicate k released))))"
proof -
  note t = no_collision_handling [of released "fst App_TaskBall_init" 0 0 50 1000000]
  have "(39 :: int) + int 50 < 2147483648" "sint (1000000 :: c_int) < 2147483647"
    by simp_all
  with t show ?thesis
    by (simp add: on_screen_def)
qed

subsection \<open>The scheduler lock within a tick\<close>

text \<open>
  Claim C4, as stated, fails: the erase and the draw of a tick are not within one hold
  of the scheduler lock. In the first tick after the start, with no button pressed,
  the trace has two holds.
\<close>

theorem ball_tick_one_acquisition_counterexample:
  "\<not> one_acquisition (snd (App_TaskBall_body released (fst App_TaskBall_init))) \<and>
   length (lock_holds (snd (App_TaskBall_body released (fst App_TaskBall_init)))) = 2"
  by (simp add: one_acquisition_def lock_holds_def snd_App_TaskBall_body fst_App_TaskBall_body
      steer_released fst_App_TaskBall_init holds_Screen_WriteChar holds_Screen_WriteChar_end
      on_screen_def)

text \<open>
  Claim C4, amended. Within each tick of the ball task, the erase at the old position
  and the draw at the new position are each done while holding the scheduler lock, in
  two separate holds, one inside each call of \<^verbatim>\<open>Screen_WriteChar\<close>: the trace of a
  tick is the delay, then lock, cursor sequence, blank, unlock for the old position,
  then lock, cursor sequence, glyph, unlock for the new one. A call for a position off
  the screen takes no lock and sends nothing. No byte of a tick is sent without the
  lock.
\<close>

theorem ball_tick_lock_holds:
  "snd (App_TaskBall_body sw b) =
     Delay 75 #
     (if on_screen (sint (x b)) (sint (y b))
      then SchedLock # Screen_MoveCursor (x b) (y b) @ [Put CHR '' '', SchedUnlock] else []) @
     (if on_screen (sint (x (fst (App_TaskBall_body sw b)))) (sint (y (fst (App_TaskBall_body sw b))))
      then SchedLock #
           Screen_MoveCursor (x (fst (App_TaskBall_body sw b))) (y (fst (App_TaskBall_body sw b))) @
           [Put CHR ''*'', SchedUnlock]
      else []) \<and>
   lock_holds (snd (App_TaskBall_body sw b)) =
     (if on_screen (sint (x b)) (sint (y b))
      then [Screen_MoveCursor (x b) (y b) @ [Put CHR '' '']] else []) @
     (if on_screen (sint (x (fst (App_TaskBall_body sw b)))) (sint (y (fst (App_TaskBall_body sw b))))
      then [Screen_MoveCursor (x (fst (App_TaskBall_body sw b))) (y (fst (App_TaskBall_body sw b))) @
            [Put CHR ''*'']]
      else []) \<and>
   unlocked_bytes False (snd (App_TaskBall_body sw b)) = []"
proof (intro conjI)
  let ?b = "fst (App_TaskBall_body sw b)"
  show "snd (App_TaskBall_body sw b) =
     Delay 75 #
     (if on_screen (sint (x b)) (sint (y b))
      then SchedLock # Screen_MoveCursor (x b) (y b) @ [Put CHR '' '', SchedUnlock] else []) @
     (if on_screen (sint (x ?b)) (sint (y ?b))
      then SchedLock # Screen_MoveCursor (x ?b) (y ?b) @ [Put CHR ''*'', SchedUnlock]
      else [])"
    by (simp only: snd_App_TaskBall_body snd_Screen_WriteChar)
  show "lock_holds (snd (App_TaskBall_body sw b)) =
     (if on_screen (sint (x b)) (sint (y b))
      then [Screen_MoveCursor (x b) (y b) @ [Put CHR '' '']] else []) @
     (if on_screen (sint (x ?b)) (sint (y ?b))
      then [Screen_MoveCursor (x ?b) (y ?b) @ [Put CHR ''*'']]
      else [])"
    by (simp add: lock_holds_def snd_App_TaskBall_body holds_Screen_WriteChar
        holds_Screen_WriteChar_end)
  show "unlocked_bytes False (snd (App_TaskBall_body sw b)) = []"
    by (simp add: snd_App_TaskBall_body unlocked_bytes_Screen_WriteChar
        unlocked_bytes_Screen_WriteChar_end)
qed

theorem ball_tick_lock_holds_witness:
  "map bytes (lock_holds (snd (App_TaskBall_body released \<lparr>x = 39, y = 12, x_delta = 1, y_delta = 0\<rparr>))) =
     [CHR 0x1B # ''[12;39H '', CHR 0x1B # ''[12;40H*''] \<and>
   map bytes (lock_holds (snd (App_TaskBall_body released \<lparr>x = 80, y = 12, x_delta = 1, y_delta = 0\<rparr>))) =
     [CHR 0x1B # ''[12;80H ''] \<and>
   snd (App_TaskBall_body released \<lparr>x = 81, y = 12, x_delta = 1, y_delta = 0\<rparr>) = [Delay 75] \<and>
   unlocked_bytes False (snd (App_TaskBall_body released \<lparr>x = 39, y = 12, x_delta = 1, y_delta = 0\<rparr>)) = []"
proof -
  note on_screen_def [simp] fst_App_TaskBall_body [simp] steer_released [simp]
  have "map bytes (lock_holds (snd (App_TaskBall_body released
          \<lparr>x = 39, y = 12, x_delta = 1, y_delta = 0\<rparr>))) =
        [CHR 0x1B # ''[12;39H '', CHR 0x1B # ''[12;40H*'']"
    using ball_tick_lock_holds [of released "\<lparr>x = 39, y = 12, x_delta = 1, y_delta = 0\<rparr>",
        THEN conjunct2, THEN conjunct1]
    by (simp add: bytes_append bytes_Screen_MoveCursor_on two_digits_def digit_char_def)
  moreover have "map bytes (lock_holds (snd (App_TaskBall_body released
          \<lparr>x = 80, y = 12, x_delta = 1, y_delta = 0\<rparr>))) =
        [CHR 0x1B # ''[12;80H '']"
    using ball_tick_lock_holds [of released "\<lparr>x = 80, y = 12, x_delta = 1, y_delta = 0\<rparr>",
        THEN conjunct2, THEN conjunct1]
    by (simp add: bytes_append bytes_Screen_MoveCursor_on two_digits_def digit_char_def)
  moreover have "snd (App_TaskBall_body released \<lparr>x = 81, y = 12, x_delta = 1, y_delta = 0\<rparr>) =
        [Delay 75]"
    using ball_tick_lock_holds [of released "\<lparr>x = 81, y = 12, x_delta = 1, y_delta = 0\<rparr>",
        THEN conjunct1]
    by simp
  moreover have "unlocked_bytes False (snd (App_TaskBall_body released
          \<lparr>x = 39, y = 12, x_delta = 1, y_delta = 0\<rparr>)) = []"
    using ball_tick_lock_holds [of released "\<lparr>x = 39, y = 12, x_delta = 1, y_delta = 0\<rparr>",
        THEN conjunct2, THEN conjunct2]
    by simp
  ultimately show ?thesis
    by (intro conjI)
qed

end
